theory Spec2Isabelle
  imports Main "HOL-Library.AList"
begin

section \<open>The WhatsApp bridge of the notification service\<close>

text \<open>
  A shallow embedding of \<^verbatim>\<open>notification_service/whatsapp_bridge.js\<close>. Every event handler
  the file registers becomes a function from the bridge's state and the handler's argument
  to the list of effects the handler performs, in order, and the state it leaves. An
  exception that leaves a handler uncaught is the \<open>Inl\<close> branch of its result; the one
  handler that can throw after it has written something returns the error beside its effects.
  JavaScript strings are \<open>string\<close>; a field that may be \<^verbatim>\<open>undefined\<close> or \<^verbatim>\<open>null\<close> is an
  \<open>option\<close>, \<open>None\<close> standing for both.
\<close>

subsection \<open>JavaScript values and strings\<close>

text \<open>A value as \<^verbatim>\<open>bodyParser.json()\<close> can put it into a request body; \<open>Undefined\<close> is an
  absent field.\<close>

datatype js_value =
    Undefined
  | Null
  | Bool bool
  | Number int
  | Str string
  | Array "js_value list"
  | Object "(string \<times> js_value) list"

text \<open>Only a \<^verbatim>\<open>TypeError\<close> ever leaves a handler of this file uncaught: a property read on
  \<^verbatim>\<open>undefined\<close>, or a call of something that is no function.\<close>

datatype js_error = TypeError

text \<open>\<^verbatim>\<open>s.startsWith(p)\<close> and \<^verbatim>\<open>s.slice(n)\<close> (for \<open>n \<ge> 0\<close>). The bridge slices a string
  only after an ASCII character, which is one unit of the string in JavaScript and here.\<close>

definition startsWith :: "string \<Rightarrow> string \<Rightarrow> bool" where
  "startsWith s p = (take (length p) s = p)"

definition slice :: "string \<Rightarrow> nat \<Rightarrow> string" where
  "slice s n = drop n s"

text \<open>Truthiness of a value that is a string, \<^verbatim>\<open>undefined\<close> or \<^verbatim>\<open>null\<close>: only a non-empty
  string is truthy.\<close>

fun truthy :: "string option \<Rightarrow> bool" where
  "truthy None = False"
| "truthy (Some s) = (s \<noteq> [])"

subsection \<open>Addresses\<close>

text \<open>
  Lines 62 to 69, inside the handler of \<^verbatim>\<open>POST /send-whatsapp\<close>:
  \<^verbatim>\<open>
  const formattedPhone = phone.startsWith("0")
    ? "254" + phone.slice(1)
    : phone.startsWith("+")
    ? phone.slice(1)
    : phone;
  const id = formattedPhone + "@s.whatsapp.net";
  \<close>
  The second definition is the source's \<^verbatim>\<open>id\<close>, renamed since \<open>id\<close> is HOL's identity.
\<close>

definition formattedPhone :: "string \<Rightarrow> string" where
  "formattedPhone phone =
     (if startsWith phone ''0'' then ''254'' @ slice phone 1
      else if startsWith phone ''+'' then slice phone 1
      else phone)"

definition id_jid :: "string \<Rightarrow> string" where
  "id_jid phone = formattedPhone phone @ ''@s.whatsapp.net''"

text \<open>
  Lines 26 to 30, evaluated once when the module is loaded; the argument is
  \<^verbatim>\<open>process.env.ADMIN_WHATSAPP_NUMBER\<close>, \<open>None\<close> when the variable is unset. The empty
  string is falsy, so it takes the fallback too.
  \<^verbatim>\<open>
  let adminPhone = process.env.ADMIN_WHATSAPP_NUMBER
    ? (process.env.ADMIN_WHATSAPP_NUMBER.startsWith("+")
        ? process.env.ADMIN_WHATSAPP_NUMBER.slice(1)
        : process.env.ADMIN_WHATSAPP_NUMBER) + "@s.whatsapp.net"
    : "254754096684@s.whatsapp.net";
  \<close>
\<close>

definition adminPhone_init :: "string option \<Rightarrow> string" where
  "adminPhone_init env =
     (case env of
        None \<Rightarrow> ''254754096684@s.whatsapp.net''
      | Some n \<Rightarrow>
          if truthy (Some n)
          then (if startsWith n ''+'' then slice n 1 else n) @ ''@s.whatsapp.net''
          else ''254754096684@s.whatsapp.net'')"

subsection \<open>The correlation store\<close>

text \<open>
  \<^verbatim>\<open>let messageMap = {};\<close> (line 25) maps the identifier the channel gave to a forwarded
  visitor message to the \<^verbatim>\<open>socket.id\<close> of the visitor's connection. It is a plain object:
  the list of its own properties, on top of \<^verbatim>\<open>Object.prototype\<close>. A read \<^verbatim>\<open>obj[k]\<close> gives the
  own property \<open>k\<close> when there is one, the member of \<^verbatim>\<open>Object.prototype\<close> named \<open>k\<close> when
  there is none (a function, or the prototype itself for \<^verbatim>\<open>__proto__\<close>), and \<^verbatim>\<open>undefined\<close>
  otherwise.
  \<^item> \<open>own_prop obj k\<close> is the own property \<open>k\<close> of \<open>obj\<close>, if it has one;
  \<^item> \<open>get_prop obj k\<close> is \<^verbatim>\<open>obj[k]\<close>;
  \<^item> \<open>set_prop obj k v\<close> is \<^verbatim>\<open>obj[k] = v\<close> for a string \<open>v\<close>: the setter of \<^verbatim>\<open>__proto__\<close>
    ignores a string, every other key becomes or stays an own property;
  \<^item> \<open>delete_prop obj k\<close> is \<^verbatim>\<open>delete obj[k]\<close>, which removes an own property only;
  \<^item> \<open>Object_keys obj\<close> is \<^verbatim>\<open>Object.keys(obj)\<close>, the own keys.
\<close>

type_synonym js_object = "(string \<times> string) list"

datatype prop_value =
    NoValue
  | StringValue string
  | ProtoValue string

definition Object_prototype :: "string list" where
  "Object_prototype =
     [''constructor'', ''__defineGetter__'', ''__defineSetter__'', ''hasOwnProperty'',
      ''__lookupGetter__'', ''__lookupSetter__'', ''isPrototypeOf'', ''propertyIsEnumerable'',
      ''toString'', ''valueOf'', ''__proto__'', ''toLocaleString'']"

definition own_prop :: "js_object \<Rightarrow> string \<Rightarrow> string option" where
  "own_prop obj k = map_of obj k"

definition get_prop :: "js_object \<Rightarrow> string \<Rightarrow> prop_value" where
  "get_prop obj k =
     (case own_prop obj k of
        Some v \<Rightarrow> StringValue v
      | None \<Rightarrow> if k \<in> set Object_prototype then ProtoValue k else NoValue)"

definition set_prop :: "js_object \<Rightarrow> string \<Rightarrow> string \<Rightarrow> js_object" where
  "set_prop obj k v = (if k = ''__proto__'' then obj else AList.update k v obj)"

definition delete_prop :: "js_object \<Rightarrow> string \<Rightarrow> js_object" where
  "delete_prop obj k = AList.delete k obj"

definition Object_keys :: "js_object \<Rightarrow> string list" where
  "Object_keys obj = remdups (map fst obj)"

text \<open>Truthiness of what a read of the store gives: \<^verbatim>\<open>undefined\<close> and the empty string are
  falsy, a function or an object is truthy.\<close>

fun truthy_value :: "prop_value \<Rightarrow> bool" where
  "truthy_value NoValue = False"
| "truthy_value (StringValue s) = (s \<noteq> [])"
| "truthy_value (ProtoValue k) = True"

text \<open>The module-level variables: the store, and the operator's address (never assigned
  after it is initialised).\<close>

record bridge =
  messageMap :: js_object
  adminPhone :: string

subsection \<open>Channel messages\<close>

text \<open>
  The fields of a channel message that the bridge reads. \<open>key_id\<close> is \<^verbatim>\<open>key.id\<close>,
  \<open>wa_message\<close> is \<^verbatim>\<open>msg.message\<close> and \<open>etm_text\<close> is \<^verbatim>\<open>extendedTextMessage.text\<close>.
\<close>

record context_info =
  stanzaId :: "string option"

record extended_text_message =
  etm_text :: "string option"
  contextInfo :: "context_info option"

record message_content =
  conversation :: "string option"
  extendedTextMessage :: "extended_text_message option"

record message_key =
  remoteJid :: "string option"
  fromMe :: "bool option"
  key_id :: string

record web_message =
  key :: message_key
  wa_message :: "message_content option"

text \<open>The argument of the \<^verbatim>\<open>messages.upsert\<close> event: a batch of messages.\<close>

record upsert =
  messages :: "web_message list"

text \<open>
  The Connector: \<^verbatim>\<open>await sock.sendMessage(jid, { text })\<close> either resolves to the message that
  was sent (\<open>Inr\<close>), whose \<^verbatim>\<open>key.id\<close> is the identifier the channel assigned, or rejects
  with an error (\<open>Inl\<close>, carrying the error's \<^verbatim>\<open>message\<close>). The library is not part of the
  repository, so a handler takes it as a parameter.
\<close>

type_synonym connector = "string \<Rightarrow> js_value \<Rightarrow> string + web_message"

subsection \<open>Effects\<close>

text \<open>The lines the bridge writes to the console, by the place that writes them.\<close>

datatype diagnostic =
    QrPrompt
  | ConnectionClosed bool
  | Connected
  | WhatsAppSent string
  | WhatsAppError string
  | RepliedViaQuote string
  | NoQuote
  | MappedId string
  | FailedToSend
  | WebUserDisconnected string

text \<open>
  What a handler does to the outside, in the order it does it:
  \<^item> \<open>SendMessage jid t\<close>: \<^verbatim>\<open>sock.sendMessage(jid, { text: t })\<close> was called;
  \<^item> \<open>IoToEmit room ev payload\<close>: \<^verbatim>\<open>io.to(room).emit(ev, payload)\<close>, the room being what the
    handler read from the store; a connection is in the room named by its own \<^verbatim>\<open>socket.id\<close>,
    so the room \<open>StringValue sid\<close> is the connection \<open>sid\<close> and no connection is in a room
    that is no string;
  \<^item> \<open>SocketEmit sid ev payload\<close>: \<^verbatim>\<open>socket.emit(ev, payload)\<close> on the connection \<open>sid\<close>;
  \<^item> \<open>ResJson code body\<close>: \<^verbatim>\<open>res.status(code).json(body)\<close>, the code being 200 when the handler
    sets none;
  \<^item> \<open>StartWhatsApp\<close>: \<^verbatim>\<open>startWhatsApp()\<close> was called, which builds a new Connector.
\<close>

datatype effect =
    SendMessage string js_value
  | IoToEmit prop_value string "(string \<times> string) list"
  | SocketEmit string string "(string \<times> string) list"
  | ConsoleLog diagnostic
  | ConsoleError diagnostic
  | QrcodeGenerate string
  | ResJson nat "(string \<times> string) list"
  | StartWhatsApp

subsection \<open>Connection lifecycle\<close>

text \<open>
  Lines 42 to 56. \<^verbatim>\<open>DisconnectReason.loggedOut\<close> belongs to the channel library and is the
  parameter \<open>loggedOut\<close>; \<open>err_output\<close> is the error's \<^verbatim>\<open>output\<close>. The read \<^verbatim>\<open>lastDisconnect.error\<close> throws when the update has no
  \<^verbatim>\<open>lastDisconnect\<close>; what was written before is kept in the result.
  \<^verbatim>\<open>
  const { connection, lastDisconnect, qr } = update;
  if (qr) { console.log(...); qrcode.generate(qr, { small: true }); }
  if (connection === "close") {
    const shouldReconnect =
      lastDisconnect.error?.output?.statusCode !== DisconnectReason.loggedOut;
    console.log("Connection closed. Reconnecting...", shouldReconnect);
    if (shouldReconnect) startWhatsApp();
  } else if (connection === "open") { console.log(...); }
  \<close>
\<close>

record boom_output =
  statusCode :: "int option"

record boom =
  err_output :: "boom_output option"

record last_disconnect =
  error :: "boom option"

record connection_state =
  connection :: "string option"
  lastDisconnect :: "last_disconnect option"
  qr :: "string option"

definition statusCode_of :: "last_disconnect \<Rightarrow> int option" where
  "statusCode_of ld = Option.bind (Option.bind (error ld) err_output) statusCode"

definition connection_update :: "int \<Rightarrow> connection_state \<Rightarrow> effect list \<times> js_error option" where
  "connection_update loggedOut update =
     (let shown = (case qr update of
                     None \<Rightarrow> []
                   | Some q \<Rightarrow> if truthy (Some q) then [ConsoleLog QrPrompt, QrcodeGenerate q] else [])
      in
        if connection update = Some ''close'' then
          (case lastDisconnect update of
             None \<Rightarrow> (shown, Some TypeError)
           | Some ld \<Rightarrow>
               (let shouldReconnect = (statusCode_of ld \<noteq> Some loggedOut) in
                  (shown @ [ConsoleLog (ConnectionClosed shouldReconnect)]
                     @ (if shouldReconnect then [StartWhatsApp] else []),
                   None)))
        else if connection update = Some ''open'' then (shown @ [ConsoleLog Connected], None)
        else (shown, None))"

text \<open>An error has been surfaced by a handler when it left the handler uncaught or was
  written to the error console.\<close>

fun is_error_report :: "effect \<Rightarrow> bool" where
  "is_error_report (ConsoleError d) = True"
| "is_error_report (SocketEmit sid ev p) = (ev = ''error'')"
| "is_error_report (IoToEmit room ev p) = (ev = ''error'')"
| "is_error_report e = False"

definition surfaces_error :: "effect list \<times> js_error option \<Rightarrow> bool" where
  "surfaces_error r = (snd r \<noteq> None \<or> list_ex is_error_report (fst r))"

subsection \<open>The HTTP send endpoint\<close>

text \<open>
  Lines 59 to 83. \<^verbatim>\<open>phone.startsWith\<close> is evaluated before the \<^verbatim>\<open>try\<close>: it throws a
  \<^verbatim>\<open>TypeError\<close> for every \<^verbatim>\<open>phone\<close> that is not a string (a read on \<^verbatim>\<open>undefined\<close> or
  \<^verbatim>\<open>null\<close>; for any other JSON value \<^verbatim>\<open>phone.startsWith\<close> is no function), and the handler
  has then done nothing.
  \<^verbatim>\<open>
  const { phone, message } = req.body;
  ...
  try {
    await sock.sendMessage(id, { text: message });
    console.log(`WhatsApp sent to ${phone}`);
    res.json({ status: "success", method: "whatsapp" });
  } catch (error) {
    console.error("WhatsApp Error:", error);
    res.status(500).json({ status: "error", method: "whatsapp", error: error.message });
  }
  \<close>
\<close>

record request_body =
  phone :: js_value
  message :: js_value

definition post_send_whatsapp :: "connector \<Rightarrow> request_body \<Rightarrow> js_error + effect list" where
  "post_send_whatsapp sock body =
     (case phone body of
        Str p \<Rightarrow>
          (case sock (id_jid p) (message body) of
             Inr sent \<Rightarrow>
               Inr [SendMessage (id_jid p) (message body),
                    ConsoleLog (WhatsAppSent p),
                    ResJson 200 [(''status'', ''success''), (''method'', ''whatsapp'')]]
           | Inl err \<Rightarrow>
               Inr [SendMessage (id_jid p) (message body),
                    ConsoleError (WhatsAppError err),
                    ResJson 500 [(''status'', ''error''), (''method'', ''whatsapp''),
                                 (''error'', err)]])
      | _ \<Rightarrow> Inl TypeError)"

subsection \<open>Operator to visitor\<close>

text \<open>
  Lines 97 to 125. The handler looks at the first message of the batch only;
  \<^verbatim>\<open>msg.key\<close> throws when the batch is empty. In the branch that delivers, the message
  has a content (the quoted identifier was read from it), so the reads there never throw.
  \<^verbatim>\<open>
  const msg = m.messages[0];
  if (!msg.key.fromMe && msg.key.remoteJid === adminPhone) {
    const contextInfo = msg.message?.extendedTextMessage?.contextInfo;
    const quoteId = contextInfo?.stanzaId;
    if (quoteId && messageMap[quoteId]) {
      const targetSocketId = messageMap[quoteId];
      const replyText =
        msg.message.conversation || msg.message.extendedTextMessage?.text || "";
      io.to(targetSocketId).emit("receive_message", { text: replyText, from: "Admin" });
      console.log(`Replied to User via Quote ID: ${quoteId}`);
    } else {
      console.log("You replied, but didn't quote a specific user message.");
    }
  }
  \<close>
\<close>

definition quoteId :: "web_message \<Rightarrow> string option" where
  "quoteId msg =
     Option.bind (Option.bind (Option.bind (wa_message msg) extendedTextMessage) contextInfo)
       stanzaId"

definition replyText :: "message_content \<Rightarrow> string" where
  "replyText c =
     (if truthy (conversation c) then the (conversation c)
      else if truthy (Option.bind (extendedTextMessage c) etm_text)
      then the (Option.bind (extendedTextMessage c) etm_text)
      else [])"

definition messages_upsert :: "bridge \<Rightarrow> upsert \<Rightarrow> js_error + effect list \<times> bridge" where
  "messages_upsert st m =
     (case messages m of
        [] \<Rightarrow> Inl TypeError
      | msg # others \<Rightarrow>
          if fromMe (key msg) \<noteq> Some True \<and> remoteJid (key msg) = Some (adminPhone st) then
            (case quoteId msg of
               None \<Rightarrow> Inr ([ConsoleLog NoQuote], st)
             | Some q \<Rightarrow>
                 if truthy (Some q) \<and> truthy_value (get_prop (messageMap st) q) then
                   (let targetSocketId = get_prop (messageMap st) q in
                      case wa_message msg of
                        Some c \<Rightarrow>
                          Inr ([IoToEmit targetSocketId ''receive_message''
                                  [(''text'', replyText c), (''from'', ''Admin'')],
                                ConsoleLog (RepliedViaQuote q)], st)
                      | None \<Rightarrow> Inl TypeError)
                 else Inr ([ConsoleLog NoQuote], st))
          else Inr ([], st))"


subsection \<open>Visitor to operator\<close>

text \<open>
  Lines 131 to 148, for the connection whose \<^verbatim>\<open>socket.id\<close> is \<open>sid\<close>. The whole body is inside
  the \<^verbatim>\<open>try\<close>; \<open>None\<close> is an event sent without data, on which \<^verbatim>\<open>data.text\<close> throws before
  anything is sent. The banner is the UTF-8 encoding of the template's fixed part.
  \<^verbatim>\<open>
  try {
    const sentMsg = await sock.sendMessage(adminPhone, {
      text: `<bust> *New Website Guest*\n${data.text}`,
    });
    messageMap[sentMsg.key.id] = socket.id;
    console.log(`Message sent to admin, mapped ID: ${sentMsg.key.id}`);
  } catch (error) {
    console.error("Failed to send message to admin:", error);
    socket.emit("error", { message: "Failed to send message. Please try again." });
  }
  \<close>
\<close>

record send_data =
  data_text :: string

definition banner :: string where
  "banner = [CHR 0xF0, CHR 0x9F, CHR 0x91, CHR 0xA4] @ '' *New Website Guest*'' @ [CHR 0x0A]"

definition send_failed :: "string \<Rightarrow> effect list" where
  "send_failed sid =
     [ConsoleError FailedToSend,
      SocketEmit sid ''error'' [(''message'', ''Failed to send message. Please try again.'')]]"

definition send_message :: "connector \<Rightarrow> bridge \<Rightarrow> string \<Rightarrow> send_data option \<Rightarrow> effect list \<times> bridge" where
  "send_message sock st sid data =
     (case data of
        None \<Rightarrow> (send_failed sid, st)
      | Some d \<Rightarrow>
          (let content = Str (banner @ data_text d) in
             case sock (adminPhone st) content of
               Inl err \<Rightarrow> (SendMessage (adminPhone st) content # send_failed sid, st)
             | Inr sentMsg \<Rightarrow>
                 ([SendMessage (adminPhone st) content, ConsoleLog (MappedId (key_id (key sentMsg)))],
                  st\<lparr>messageMap := set_prop (messageMap st) (key_id (key sentMsg)) sid\<rparr>)))"

text \<open>
  Lines 150 to 158, for the connection whose \<^verbatim>\<open>socket.id\<close> is \<open>sid\<close>.
  \<^verbatim>\<open>
  Object.keys(messageMap).forEach((key) => {
    if (messageMap[key] === socket.id) { delete messageMap[key]; }
  });
  \<close>
\<close>

definition disconnect :: "bridge \<Rightarrow> string \<Rightarrow> effect list \<times> bridge" where
  "disconnect st sid =
     ([ConsoleLog (WebUserDisconnected sid)],
      st\<lparr>messageMap :=
            fold (\<lambda>k obj. if get_prop obj k = StringValue sid then delete_prop obj k else obj)
              (Object_keys (messageMap st)) (messageMap st)\<rparr>)"

subsection \<open>Vocabulary of the statements\<close>


text \<open>
  The Address Normalizer as section 4.1 of the specification words it, to compare the
  address of the endpoint with: a leading trunk digit \<open>0\<close> is replaced by the country code
  \<open>254\<close>; else a leading \<open>+\<close> is stripped; else the input passes through; the suffix of
  the channel is appended.
\<close>

fun normalizer_spec :: "string \<Rightarrow> string" where
  "normalizer_spec [] = ''@s.whatsapp.net''"
| "normalizer_spec (c # rest) =
     (if c = CHR ''0'' then ''254'' @ rest
      else if c = CHR ''+'' then rest
      else c # rest) @ ''@s.whatsapp.net''"

text \<open>Concrete values for the examples: a bridge with two visitors, the operator's
  reply \<open>t\<close> quoting the message \<open>q\<close>, an operator message that quotes nothing, a message
  from another chat, and a Connector that is down or up.\<close>

definition example_bridge :: bridge where
  "example_bridge =
     \<lparr>messageMap = [(''3EB0A1'', ''sock1''), (''3EB0B2'', ''sock2''), (''3EB0C3'', ''sock1'')],
      adminPhone = ''254754096684@s.whatsapp.net''\<rparr>"




definition sock_down :: connector where
  "sock_down jid t = Inl ''Connection Closed''"

definition sock_up :: connector where
  "sock_up jid t =
     Inr \<lparr>key = \<lparr>remoteJid = Some jid, fromMe = Some True, key_id = ''3EB0D4''\<rparr>,
          wa_message = None\<rparr>"

section \<open>Properties\<close>

subsection \<open>Strings\<close>

lemma startsWith_Cons [simp]: "startsWith (c # s) [d] = (c = d)"
  by (simp add: startsWith_def)

lemma startsWith_Nil [simp]: "startsWith [] [d] = False"
  by (simp add: startsWith_def)

lemma slice_Cons_1 [simp]: "slice (c # s) (Suc 0) = s"
  by (simp add: slice_def)

lemma startsWith_single: "startsWith p [d] = (\<exists>rest. p = d # rest)"
  by (cases p) (auto simp: startsWith_def)

subsection \<open>Address normalization\<close>

text \<open>
  Claim C6. For every phone string, the address of \<^verbatim>\<open>POST /send-whatsapp\<close> is built by these
  rules, in this order: a string that starts with the trunk digit \<open>0\<close> has that one digit
  replaced by \<open>254\<close>; otherwise a string that starts with \<open>+\<close> loses the \<open>+\<close>; any other
  string is kept as it is; then \<open>@s.whatsapp.net\<close> is appended. So \<open>0712345678\<close> and
  \<open>+254712345678\<close> both give \<open>254712345678@s.whatsapp.net\<close>, and \<open>254712345678\<close> is
  unchanged but for the suffix.
\<close>

theorem address_normalization:
  "(\<forall>rest. id_jid (CHR ''0'' # rest) = ''254'' @ rest @ ''@s.whatsapp.net'')
   \<and> (\<forall>rest. id_jid (CHR ''+'' # rest) = rest @ ''@s.whatsapp.net'')
   \<and> (\<forall>p. (\<forall>rest. p \<noteq> CHR ''0'' # rest) \<and> (\<forall>rest. p \<noteq> CHR ''+'' # rest)
          \<longrightarrow> id_jid p = p @ ''@s.whatsapp.net'')
   \<and> id_jid ''0712345678'' = ''254712345678@s.whatsapp.net''
   \<and> id_jid ''+254712345678'' = ''254712345678@s.whatsapp.net''
   \<and> id_jid ''254712345678'' = ''254712345678@s.whatsapp.net''"
  by (simp add: id_jid_def formattedPhone_def startsWith_single)

theorem address_normalization_witness:
  "id_jid ''712345678'' = ''712345678@s.whatsapp.net''
   \<and> id_jid ''0712345678'' = ''254712345678@s.whatsapp.net''"
proof -
  have a: "\<forall>rest. ''712345678'' \<noteq> CHR ''0'' # rest" by simp
  have b: "\<forall>rest. ''712345678'' \<noteq> CHR ''+'' # rest" by simp
  note r = address_normalization [THEN conjunct2, THEN conjunct2, THEN conjunct1]
  have "id_jid ''712345678'' = ''712345678'' @ ''@s.whatsapp.net''"
    by (rule r [THEN spec, THEN mp, OF conjI [OF a b]])
  moreover have "id_jid ''0712345678'' = ''254712345678@s.whatsapp.net''"
    using address_normalization by (elim conjE)
  ultimately show ?thesis by simp
qed

subsection \<open>The operator's address\<close>

text \<open>
  Claim C10. The operator's address is computed once, when the module is loaded: it is
  \<open>254754096684@s.whatsapp.net\<close> when the variable is unset, and otherwise the configured
  number without a leading \<open>+\<close>, followed by \<open>@s.whatsapp.net\<close>. The trunk-prefix rule of
  the endpoint is not applied: a configured number that starts with \<open>0\<close> keeps its \<open>0\<close>,
  and its address is not the one the endpoint builds from the same number.
\<close>

theorem operator_address_derivation:
  "adminPhone_init None = ''254754096684@s.whatsapp.net''
   \<and> (\<forall>rest. adminPhone_init (Some (CHR ''+'' # rest)) = rest @ ''@s.whatsapp.net'')
   \<and> (\<forall>c rest. c \<noteq> CHR ''+'' \<longrightarrow>
          adminPhone_init (Some (c # rest)) = (c # rest) @ ''@s.whatsapp.net'')
   \<and> (\<forall>rest. adminPhone_init (Some (CHR ''0'' # rest)) = (CHR ''0'' # rest) @ ''@s.whatsapp.net''
          \<and> adminPhone_init (Some (CHR ''0'' # rest)) \<noteq> id_jid (CHR ''0'' # rest))"
  by (simp add: adminPhone_init_def id_jid_def formattedPhone_def)

theorem operator_address_derivation_witness:
  "CHR ''0'' \<noteq> CHR ''+''
   \<and> adminPhone_init (Some ''0754096684'') = ''0754096684@s.whatsapp.net''
   \<and> adminPhone_init (Some ''0754096684'') \<noteq> id_jid ''0754096684''"
proof -
  have ne: "CHR ''0'' \<noteq> CHR ''+''" by simp
  note r = operator_address_derivation [THEN conjunct2, THEN conjunct2]
  have "adminPhone_init (Some ''0754096684'') = ''0754096684'' @ ''@s.whatsapp.net''"
    by (rule r [THEN conjunct1, THEN spec, THEN spec, THEN mp, OF ne])
  moreover have "adminPhone_init (Some ''0754096684'') \<noteq> id_jid ''0754096684''"
    by (rule r [THEN conjunct2, THEN spec, THEN conjunct2])
  ultimately show ?thesis using ne by simp
qed

subsection \<open>The correlation store\<close>

lemma own_prop_delete:
  "own_prop (delete_prop obj k') k = (if k = k' then None else own_prop obj k)"
  by (simp add: own_prop_def delete_prop_def delete_conv)

lemma own_prop_set:
  "k' \<noteq> ''__proto__'' \<Longrightarrow>
     own_prop (set_prop obj k' v) k = (if k = k' then Some v else own_prop obj k)"
  by (simp add: own_prop_def set_prop_def update_conv)

lemma own_prop_keys: "own_prop obj k = Some v \<Longrightarrow> k \<in> set (Object_keys obj)"
  by (auto simp: own_prop_def Object_keys_def dest!: map_of_SomeD intro: rev_image_eqI)

text \<open>A read gives a string exactly when the key is an own property.\<close>

lemma get_prop_own: "get_prop obj k = StringValue v \<longleftrightarrow> own_prop obj k = Some v"
  by (simp add: get_prop_def split: option.splits)

text \<open>The loop of the disconnect handler, over any list of keys.\<close>

lemma own_prop_purge:
  "own_prop (fold (\<lambda>k obj. if own_prop obj k = Some sid then delete_prop obj k else obj)
               ks obj) k =
     (if k \<in> set ks \<and> own_prop obj k = Some sid then None else own_prop obj k)"
proof (induction ks arbitrary: obj)
  case Nil
  show ?case by simp
next
  case (Cons a ks)
  show ?case
    by (simp add: Cons.IH own_prop_delete)
qed

lemma own_prop_disconnect:
  "own_prop (messageMap (snd (disconnect st sid))) k =
     (if own_prop (messageMap st) k = Some sid then None else own_prop (messageMap st) k)"
  by (auto simp: disconnect_def get_prop_own own_prop_purge dest: own_prop_keys)

lemma get_prop_disconnect:
  "get_prop (messageMap (snd (disconnect st sid))) k =
     (if get_prop (messageMap st) k = StringValue sid
      then (if k \<in> set Object_prototype then ProtoValue k else NoValue)
      else get_prop (messageMap st) k)"
  by (simp add: get_prop_own) (simp add: get_prop_def own_prop_disconnect)


text \<open>
  Claim C3. Whatever the store holds and whichever session \<open>sid\<close> disconnects, after the
  purge of the disconnect handler the store has no entry for any identifier that was
  mapped to \<open>sid\<close>, and has the entry it had for every identifier mapped to another
  session. So does the read \<^verbatim>\<open>messageMap[k]\<close>: after the purge it resolves an identifier that
  was mapped to \<open>sid\<close> to no session (to \<^verbatim>\<open>undefined\<close>, for every identifier that is not the
  name of a member of \<^verbatim>\<open>Object.prototype\<close>, as no identifier of the channel is), and it gives
  what it gave before for an identifier mapped to another session.
\<close>

theorem disconnect_purges_session:
  "(own_prop (messageMap st) k = Some sid \<longrightarrow>
      own_prop (messageMap (snd (disconnect st sid))) k = None)
   \<and> (\<forall>other. own_prop (messageMap st) k = Some other \<and> other \<noteq> sid \<longrightarrow>
      own_prop (messageMap (snd (disconnect st sid))) k = Some other)
   \<and> (get_prop (messageMap st) k = StringValue sid \<longrightarrow>
      (\<forall>s. get_prop (messageMap (snd (disconnect st sid))) k \<noteq> StringValue s)
      \<and> (k \<notin> set Object_prototype \<longrightarrow>
           get_prop (messageMap (snd (disconnect st sid))) k = NoValue))
   \<and> (\<forall>other. get_prop (messageMap st) k = StringValue other \<and> other \<noteq> sid \<longrightarrow>
      get_prop (messageMap (snd (disconnect st sid))) k = StringValue other)"
proof -
  have "own_prop (messageMap st) k = Some sid \<longrightarrow>
      own_prop (messageMap (snd (disconnect st sid))) k = None"
    by (simp add: own_prop_disconnect)
  moreover have "\<forall>other. own_prop (messageMap st) k = Some other \<and> other \<noteq> sid \<longrightarrow>
      own_prop (messageMap (snd (disconnect st sid))) k = Some other"
    by (simp add: own_prop_disconnect)
  moreover have "get_prop (messageMap st) k = StringValue sid \<longrightarrow>
      (\<forall>s. get_prop (messageMap (snd (disconnect st sid))) k \<noteq> StringValue s)
      \<and> (k \<notin> set Object_prototype \<longrightarrow>
           get_prop (messageMap (snd (disconnect st sid))) k = NoValue)"
    by (simp add: get_prop_disconnect)
  moreover have "\<forall>other. get_prop (messageMap st) k = StringValue other \<and> other \<noteq> sid \<longrightarrow>
      get_prop (messageMap (snd (disconnect st sid))) k = StringValue other"
    by (simp add: get_prop_disconnect)
  ultimately show ?thesis by (intro conjI)
qed

theorem disconnect_purges_session_witness:
  "own_prop (messageMap example_bridge) ''3EB0C3'' = Some ''sock1''
   \<and> own_prop (messageMap (snd (disconnect example_bridge ''sock1''))) ''3EB0C3'' = None
   \<and> own_prop (messageMap (snd (disconnect example_bridge ''sock1''))) ''3EB0B2'' = Some ''sock2''
   \<and> get_prop (messageMap example_bridge) ''3EB0C3'' = StringValue ''sock1''
   \<and> get_prop (messageMap (snd (disconnect example_bridge ''sock1''))) ''3EB0C3'' = NoValue
   \<and> get_prop (messageMap (snd (disconnect example_bridge ''sock1''))) ''3EB0B2'' = StringValue ''sock2''"
proof -
  have a: "own_prop (messageMap example_bridge) ''3EB0C3'' = Some ''sock1''"
    by (simp add: own_prop_def example_bridge_def)
  have b: "own_prop (messageMap example_bridge) ''3EB0B2'' = Some ''sock2'' \<and> ''sock2'' \<noteq> ''sock1''"
    by (simp add: own_prop_def example_bridge_def)
  have c: "get_prop (messageMap example_bridge) ''3EB0C3'' = StringValue ''sock1''"
    using a by (simp add: get_prop_own)
  have d: "get_prop (messageMap example_bridge) ''3EB0B2'' = StringValue ''sock2'' \<and> ''sock2'' \<noteq> ''sock1''"
    using b by (simp add: get_prop_own)
  have e: "''3EB0C3'' \<notin> set Object_prototype"
    by (simp add: Object_prototype_def)
  note r = disconnect_purges_session [where st = example_bridge and sid = "''sock1''"]
  have "own_prop (messageMap (snd (disconnect example_bridge ''sock1''))) ''3EB0C3'' = None"
    by (rule r [THEN conjunct1, THEN mp, OF a])
  moreover have "own_prop (messageMap (snd (disconnect example_bridge ''sock1''))) ''3EB0B2'' = Some ''sock2''"
    by (rule r [THEN conjunct2, THEN conjunct1, THEN spec, THEN mp, OF b])
  moreover have "get_prop (messageMap (snd (disconnect example_bridge ''sock1''))) ''3EB0C3'' = NoValue"
    by (rule r [THEN conjunct2, THEN conjunct2, THEN conjunct1, THEN mp, OF c, THEN conjunct2,
                THEN mp, OF e])
  moreover have "get_prop (messageMap (snd (disconnect example_bridge ''sock1''))) ''3EB0B2'' = StringValue ''sock2''"
    by (rule r [THEN conjunct2, THEN conjunct2, THEN conjunct2, THEN spec, THEN mp, OF d])
  ultimately show ?thesis using a c by simp
qed

subsection \<open>Visitor to operator\<close>

text \<open>
  Claim C4. When a visitor's \<^verbatim>\<open>send_message\<close> on the connection \<open>sid\<close> reaches the Connector
  and the send fails, the handler emits an \<^verbatim>\<open>error\<close> event on that connection and leaves the
  bridge, and with it the correlation store, exactly as it was.
\<close>

theorem failed_send_creates_no_correlation:
  assumes "sock (adminPhone st) (Str (banner @ data_text d)) = Inl err"
  shows "send_message sock st sid (Some d) =
           ([SendMessage (adminPhone st) (Str (banner @ data_text d)),
             ConsoleError FailedToSend,
             SocketEmit sid ''error'' [(''message'', ''Failed to send message. Please try again.'')]],
            st)"
  using assms by (simp add: send_message_def send_failed_def)

theorem failed_send_creates_no_correlation_witness:
  "sock_down (adminPhone example_bridge) (Str (banner @ ''Is the hall free?'')) = Inl ''Connection Closed''
   \<and> send_message sock_down example_bridge ''sock2'' (Some \<lparr>data_text = ''Is the hall free?''\<rparr>) =
       ([SendMessage ''254754096684@s.whatsapp.net'' (Str (banner @ ''Is the hall free?'')),
         ConsoleError FailedToSend,
         SocketEmit ''sock2'' ''error'' [(''message'', ''Failed to send message. Please try again.'')]],
        example_bridge)"
proof -
  have a: "sock_down (adminPhone example_bridge) (Str (banner @ data_text \<lparr>data_text = ''Is the hall free?''\<rparr>))
             = Inl ''Connection Closed''"
    by (simp add: sock_down_def)
  from failed_send_creates_no_correlation
         [where sock = sock_down and st = example_bridge and sid = "''sock2''"
            and d = "\<lparr>data_text = ''Is the hall free?''\<rparr>", OF a] a
  show ?thesis by (simp add: example_bridge_def)
qed

text \<open>A send that succeeds records the identifier the channel assigned.\<close>

lemma send_message_records:
  assumes "sock (adminPhone st) (Str (banner @ data_text d)) = Inr sentMsg"
    and "key_id (key sentMsg) \<noteq> ''__proto__''"
  shows "get_prop (messageMap (snd (send_message sock st sid (Some d)))) (key_id (key sentMsg))
           = StringValue sid"
  using assms by (simp add: send_message_def get_prop_own own_prop_set)

subsection \<open>Operator to visitor\<close>

text \<open>The message an event delivers to the handler is the first of its batch; the handler
  throws for an empty batch and for nothing else.\<close>

lemma messages_upsert_first_only:
  "messages m = msg # others \<Longrightarrow> messages_upsert st m = messages_upsert st (m\<lparr>messages := [msg]\<rparr>)"
  by (simp add: messages_upsert_def)

lemma quoteId_content: "quoteId msg = Some q \<Longrightarrow> \<exists>c. wa_message msg = Some c"
  by (cases "wa_message msg") (simp_all add: quoteId_def)

lemma messages_upsert_throws: "messages_upsert st m = Inl e \<longleftrightarrow> messages m = []"
proof (cases "messages m")
  case Nil
  then show ?thesis by (cases e) (simp add: messages_upsert_def)
next
  case (Cons msg others)
  show ?thesis
  proof (cases "quoteId msg")
    case None
    with Cons show ?thesis by (simp add: messages_upsert_def)
  next
    case (Some q)
    then obtain c where "wa_message msg = Some c"
      using quoteId_content by blast
    with Cons Some show ?thesis
      by (simp add: messages_upsert_def Let_def)
  qed
qed













subsection \<open>The HTTP send endpoint\<close>

text \<open>The address the handler computes is the one the specification's normalizer gives.\<close>

lemma id_jid_normalizer_spec: "id_jid p = normalizer_spec p"
  by (cases p) (simp_all add: id_jid_def formattedPhone_def)

text \<open>
  Claim C7. For a request to \<^verbatim>\<open>POST /send-whatsapp\<close> whose body has the phone string \<open>p\<close> and
  a message: when the Connector's send to the normalized address of \<open>p\<close> succeeds, the
  message was sent to that address (\<open>254\<close> for a leading \<open>0\<close>, a leading \<open>+\<close> stripped, the
  suffix \<open>@s.whatsapp.net\<close> appended) and the response is the JSON
  \<^verbatim>\<open>{status: "success", method: "whatsapp"}\<close>; when the send fails, the response has status 500
  and the JSON \<^verbatim>\<open>{status: "error", method: "whatsapp", error}\<close> with the error's message.
\<close>

theorem send_whatsapp_response:
  assumes "phone body = Str p"
  shows "(\<forall>sent. sock (normalizer_spec p) (message body) = Inr sent \<longrightarrow>
            post_send_whatsapp sock body =
              Inr [SendMessage (normalizer_spec p) (message body),
                   ConsoleLog (WhatsAppSent p),
                   ResJson 200 [(''status'', ''success''), (''method'', ''whatsapp'')]])
         \<and> (\<forall>err. sock (normalizer_spec p) (message body) = Inl err \<longrightarrow>
            post_send_whatsapp sock body =
              Inr [SendMessage (normalizer_spec p) (message body),
                   ConsoleError (WhatsAppError err),
                   ResJson 500 [(''status'', ''error''), (''method'', ''whatsapp''),
                                (''error'', err)]])"
  using assms by (simp add: post_send_whatsapp_def id_jid_normalizer_spec)

theorem send_whatsapp_response_witness:
  "post_send_whatsapp sock_up \<lparr>phone = Str ''0712345678'', message = Str ''Booking confirmed''\<rparr> =
     Inr [SendMessage ''254712345678@s.whatsapp.net'' (Str ''Booking confirmed''),
          ConsoleLog (WhatsAppSent ''0712345678''),
          ResJson 200 [(''status'', ''success''), (''method'', ''whatsapp'')]]
   \<and> post_send_whatsapp sock_down \<lparr>phone = Str ''0712345678'', message = Str ''Booking confirmed''\<rparr> =
     Inr [SendMessage ''254712345678@s.whatsapp.net'' (Str ''Booking confirmed''),
          ConsoleError (WhatsAppError ''Connection Closed''),
          ResJson 500 [(''status'', ''error''), (''method'', ''whatsapp''),
                       (''error'', ''Connection Closed'')]]"
proof -
  let ?body = "\<lparr>phone = Str ''0712345678'', message = Str ''Booking confirmed''\<rparr>"
  have p: "phone ?body = Str ''0712345678''" by simp
  have j: "normalizer_spec ''0712345678'' = ''254712345678@s.whatsapp.net''"
    by simp
  have up: "sock_up (normalizer_spec ''0712345678'') (message ?body) =
      Inr \<lparr>key = \<lparr>remoteJid = Some (normalizer_spec ''0712345678''), fromMe = Some True,
                  key_id = ''3EB0D4''\<rparr>,
           wa_message = None\<rparr>"
    by (simp add: sock_up_def)
  have down: "sock_down (normalizer_spec ''0712345678'') (message ?body) = Inl ''Connection Closed''"
    by (simp add: sock_down_def)
  note ok = send_whatsapp_response [where sock = sock_up, OF p, THEN conjunct1, THEN spec, THEN mp, OF up]
  note ko = send_whatsapp_response [where sock = sock_down, OF p, THEN conjunct2, THEN spec, THEN mp, OF down]
  from ok ko j show ?thesis by simp
qed

text \<open>
  Claim C9. \<^verbatim>\<open>phone.startsWith\<close> is evaluated before the \<^verbatim>\<open>try\<close>: for every request whose
  body has no string \<^verbatim>\<open>phone\<close> the handler throws there, having sent nothing and written no
  response, so neither the success JSON nor the error JSON is produced. The error JSON is
  produced only when \<^verbatim>\<open>phone\<close> is a string and the Connector's send has failed.
\<close>

theorem send_whatsapp_throws_without_phone:
  "((\<forall>p. phone body \<noteq> Str p) \<longrightarrow> post_send_whatsapp sock body = Inl TypeError)
   \<and> (\<forall>out code err. post_send_whatsapp sock body = Inr out
         \<and> ResJson code [(''status'', ''error''), (''method'', ''whatsapp''), (''error'', err)] \<in> set out
       \<longrightarrow> (\<exists>p. phone body = Str p \<and> sock (id_jid p) (message body) = Inl err))"
  by (auto simp: post_send_whatsapp_def split: js_value.splits sum.splits)

theorem send_whatsapp_throws_without_phone_witness:
  "post_send_whatsapp sock_up \<lparr>phone = Undefined, message = Str ''Booking confirmed''\<rparr> = Inl TypeError
   \<and> post_send_whatsapp sock_up \<lparr>phone = Number 712345678, message = Str ''Booking confirmed''\<rparr> = Inl TypeError"
proof -
  have a: "\<forall>p. phone \<lparr>phone = Undefined, message = Str ''Booking confirmed''\<rparr> \<noteq> Str p" by simp
  have b: "\<forall>p. phone \<lparr>phone = Number 712345678, message = Str ''Booking confirmed''\<rparr> \<noteq> Str p" by simp
  from send_whatsapp_throws_without_phone [where sock = sock_up, THEN conjunct1, THEN mp, OF a]
       send_whatsapp_throws_without_phone [where sock = sock_up, THEN conjunct1, THEN mp, OF b]
  show ?thesis by simp
qed

subsection \<open>Connection lifecycle\<close>

text \<open>
  Claim C5 says that on a close the bridge builds a new Connector exactly when the reason is
  not the logged-out one, and that on a logged-out close it surfaces a fatal configuration
  error. The second part fails: with 401 as the logged-out code, a close for that reason
  writes one line to the console log and nothing else; no error is thrown or reported.
\<close>

theorem logged_out_close_surfaces_no_error:
  "connection_update 401
      \<lparr>connection = Some ''close'',
       lastDisconnect = Some \<lparr>error = Some \<lparr>err_output = Some \<lparr>statusCode = Some 401\<rparr>\<rparr>\<rparr>,
       qr = None\<rparr>
     = ([ConsoleLog (ConnectionClosed False)], None)
   \<and> \<not> surfaces_error (connection_update 401
      \<lparr>connection = Some ''close'',
       lastDisconnect = Some \<lparr>error = Some \<lparr>err_output = Some \<lparr>statusCode = Some 401\<rparr>\<rparr>\<rparr>,
       qr = None\<rparr>)"
  by (simp add: connection_update_def statusCode_of_def surfaces_error_def)

text \<open>
  Claim C5, amended. For every close event that carries its \<^verbatim>\<open>lastDisconnect\<close>, the bridge
  calls \<^verbatim>\<open>startWhatsApp\<close> again if and only if the status code of the closure is not the
  logged-out code; it writes the closure and that decision to the console log, and it
  surfaces no error, on a logged-out closure as on any other.
\<close>

theorem reconnect_unless_logged_out:
  assumes "connection update = Some ''close''" and "lastDisconnect update = Some ld"
  shows "(StartWhatsApp \<in> set (fst (connection_update loggedOut update))
            \<longleftrightarrow> statusCode_of ld \<noteq> Some loggedOut)
         \<and> ConsoleLog (ConnectionClosed (statusCode_of ld \<noteq> Some loggedOut))
              \<in> set (fst (connection_update loggedOut update))
         \<and> \<not> surfaces_error (connection_update loggedOut update)"
  using assms
  by (auto simp: connection_update_def surfaces_error_def Let_def split: option.splits)

theorem reconnect_unless_logged_out_witness:
  "StartWhatsApp \<in> set (fst (connection_update 401
      \<lparr>connection = Some ''close'',
       lastDisconnect = Some \<lparr>error = Some \<lparr>err_output = Some \<lparr>statusCode = Some 428\<rparr>\<rparr>\<rparr>,
       qr = None\<rparr>))
   \<and> StartWhatsApp \<notin> set (fst (connection_update 401
      \<lparr>connection = Some ''close'',
       lastDisconnect = Some \<lparr>error = Some \<lparr>err_output = Some \<lparr>statusCode = Some 401\<rparr>\<rparr>\<rparr>,
       qr = None\<rparr>))"
proof -
  let ?lost = "\<lparr>error = Some \<lparr>err_output = Some \<lparr>statusCode = Some 428\<rparr>\<rparr>\<rparr>"
  let ?out = "\<lparr>error = Some \<lparr>err_output = Some \<lparr>statusCode = Some 401\<rparr>\<rparr>\<rparr>"
  let ?u = "\<lambda>ld. \<lparr>connection = Some ''close'', lastDisconnect = Some ld, qr = None\<rparr>"
  have c: "connection (?u ld) = Some ''close''" for ld by simp
  have l: "lastDisconnect (?u ld) = Some ld" for ld by simp
  note a = reconnect_unless_logged_out [where loggedOut = 401, OF c l, of ?lost, THEN conjunct1]
  note b = reconnect_unless_logged_out [where loggedOut = 401, OF c l, of ?out, THEN conjunct1]
  from a b show ?thesis by (simp add: statusCode_of_def)
qed

end
